theory Spec2Isabelle
  imports Main
begin

section \<open>Values of the program\<close>

text \<open>
  The application (\<^verbatim>\<open>src/app.py\<close>) talks to a remote search service in JSON, so the
  values that cross that boundary are JSON documents as Python's \<^verbatim>\<open>response.json()\<close>
  hands them over: \<^verbatim>\<open>None\<close>, booleans, numbers, strings, lists and dicts. A dict is an
  association list (insertion order kept, keys looked up with \<open>map_of\<close>). A Python
  \<^verbatim>\<open>str\<close> is modelled by its UTF-8 bytes; the program only joins, compares and passes
  strings on, which is the same on bytes as on code points.
\<close>

datatype json =
    JNull
  | JBool bool
  | JNum int
  | JStr string
  | JArr "json list"
  | JObj "(string \<times> json) list"

definition utf8 :: "nat list \<Rightarrow> string" where
  "utf8 bs = map char_of bs"

text \<open>The Python exceptions that the modelled code can raise or let through.\<close>

datatype exn =
    KeyError
  | TypeError
  | AttributeError
  | FileNotFoundError
  | LibraryError string

text \<open>\<^verbatim>\<open>d.get(k, default)\<close>: only a dict has the method.\<close>

fun py_get :: "json \<Rightarrow> string \<Rightarrow> json \<Rightarrow> exn + json" where
  "py_get (JObj kvs) k dflt = Inr (case map_of kvs k of None \<Rightarrow> dflt | Some v \<Rightarrow> v)"
| "py_get _ k dflt = Inl AttributeError"

text \<open>\<^verbatim>\<open>d[k]\<close> with a string \<open>k\<close>: a missing key of a dict raises, any other value
  cannot be subscripted by a string.\<close>

fun py_getitem :: "json \<Rightarrow> string \<Rightarrow> exn + json" where
  "py_getitem (JObj kvs) k = (case map_of kvs k of None \<Rightarrow> Inl KeyError | Some v \<Rightarrow> Inr v)"
| "py_getitem _ k = Inl TypeError"

text \<open>\<^verbatim>\<open>for x in v\<close>: a list gives its elements, a dict its keys, a string its characters;
  nothing else is iterable.\<close>

fun py_iter :: "json \<Rightarrow> exn + json list" where
  "py_iter (JArr xs) = Inr xs"
| "py_iter (JObj kvs) = Inr (map (\<lambda>kv. JStr (fst kv)) kvs)"
| "py_iter (JStr s) = Inr (map (\<lambda>c. JStr [c]) s)"
| "py_iter _ = Inl TypeError"

text \<open>A list comprehension \<^verbatim>\<open>[f(x) for x in xs]\<close> whose body may raise: the first
  exception ends it.\<close>

fun comprehension :: "('a \<Rightarrow> exn + 'b) \<Rightarrow> 'a list \<Rightarrow> exn + 'b list" where
  "comprehension f [] = Inr []"
| "comprehension f (x # xs) =
     (case f x of
        Inl e \<Rightarrow> Inl e
      | Inr y \<Rightarrow> (case comprehension f xs of Inl e \<Rightarrow> Inl e | Inr ys \<Rightarrow> Inr (y # ys)))"

text \<open>\<^verbatim>\<open>sep.join(xs)\<close> on strings, and on JSON values, where every item must be a
  \<^verbatim>\<open>str\<close>.\<close>

fun join :: "string \<Rightarrow> string list \<Rightarrow> string" where
  "join sep [] = []"
| "join sep [x] = x"
| "join sep (x # y # ys) = x @ sep @ join sep (y # ys)"

fun as_str :: "json \<Rightarrow> exn + string" where
  "as_str (JStr s) = Inr s"
| "as_str _ = Inl TypeError"

definition py_join :: "string \<Rightarrow> json list \<Rightarrow> exn + string" where
  "py_join sep xs =
     (case comprehension as_str xs of Inl e \<Rightarrow> Inl e | Inr ss \<Rightarrow> Inr (join sep ss))"

text \<open>A dict display \<^verbatim>\<open>{k1: v1, k2: v2, ...}\<close>: a key written twice keeps its first
  position and its last value.\<close>

definition dict_set :: "string \<Rightarrow> json \<Rightarrow> (string \<times> json) list \<Rightarrow> (string \<times> json) list" where
  "dict_set k v d =
     (if k \<in> fst ` set d then map (\<lambda>kv. if fst kv = k then (k, v) else kv) d
      else d @ [(k, v)])"

definition py_dict :: "(string \<times> json) list \<Rightarrow> json" where
  "py_dict kvs = JObj (foldl (\<lambda>d kv. dict_set (fst kv) (snd kv) d) [] kvs)"

section \<open>The environment\<close>

text \<open>
  The two field names come from the process environment
  (\<^verbatim>\<open>AZURE_SEARCH_KEY_FIELD_NAME\<close>, default \<^verbatim>\<open>id\<close>, and
  \<^verbatim>\<open>AZURE_SEARCH_CONTENT_FIELD_NAME\<close>, default \<^verbatim>\<open>content\<close>). The endpoint, the index
  name and the API key only build URLs and headers and are left out.
\<close>

record config =
  key_field :: string
  content_field :: string

definition default_config :: config where
  "default_config = \<lparr>key_field = ''id'', content_field = ''content''\<rparr>"

text \<open>
  The three requests the program issues: the key listing
  (\<^verbatim>\<open>GET .../docs?search=*&$select=<key field>\<close>), the bulk action
  (\<^verbatim>\<open>POST .../docs/index\<close> with a JSON body) and the query
  (\<^verbatim>\<open>POST .../docs/search\<close> with a JSON body).
\<close>

datatype request =
    ListKeys string
  | IndexBatch json
  | SearchDocs json

text \<open>
  What the code sees of a request, inside its \<^verbatim>\<open>try\<close> block: either
  \<^verbatim>\<open>requests.get\<close>/\<^verbatim>\<open>requests.post\<close> or \<^verbatim>\<open>raise_for_status()\<close> raised a
  \<^verbatim>\<open>requests.RequestException\<close> (a network error, an HTTP error status; also a body
  that \<^verbatim>\<open>response.json()\<close> cannot parse, where the code calls it), or the call went
  through, with the JSON value of its body.
\<close>

datatype reply =
    RequestException
  | Response json

text \<open>The two ways of calling \<^verbatim>\<open>kernel.invoke_prompt\<close>: the bare prompt, or the
  template with the arguments \<^verbatim>\<open>input\<close> and \<^verbatim>\<open>context\<close>.\<close>

datatype llm_call =
    Plain string
  | Templated string string string

text \<open>
  Everything outside the repository is a parameter: the remote service (a transition
  function on its own state \<open>'s\<close>), \<^verbatim>\<open>uuid.uuid4\<close> (its successive draws, as strings),
  the name \<^verbatim>\<open>tempfile.NamedTemporaryFile\<close> picks (by the number of files made so
  far), \<^verbatim>\<open>pypdf\<close> (the pages of a file's bytes, each page's \<^verbatim>\<open>extract_text()\<close> being
  a string, \<^verbatim>\<open>None\<close> or an exception), the text splitter of \<^verbatim>\<open>semantic_kernel\<close>, and
  the language model.
\<close>

record 's env =
  service :: "request \<Rightarrow> 's \<Rightarrow> reply \<times> 's"
  uuid4 :: "nat \<Rightarrow> string"
  tmp_name :: "nat \<Rightarrow> string"
  pdf_reader :: "string \<Rightarrow> exn + (exn + string option) list"
  split_plaintext_lines :: "string \<Rightarrow> nat \<Rightarrow> exn + string list"
  invoke_prompt :: "nat \<Rightarrow> llm_call \<Rightarrow> exn + string"

text \<open>
  The state outside the Python process that the program changes: the remote service,
  the requests sent so far (oldest first), the number of UUIDs drawn and of temporary
  files made, the files on disk, and the calls made to the language model.
\<close>

record 's world =
  remote :: 's
  sent :: "request list"
  uuids_drawn :: nat
  tmp_made :: nat
  files :: "string \<rightharpoonup> string"
  llm_calls :: "llm_call list"

definition request_fails :: "'s env \<Rightarrow> request \<Rightarrow> 's \<Rightarrow> bool" where
  "request_fails E req s \<longleftrightarrow> fst (service E req s) = RequestException"

definition http :: "'s env \<Rightarrow> request \<Rightarrow> 's world \<Rightarrow> reply \<times> 's world" where
  "http E req w =
     (case service E req (remote w) of
        (r, s') \<Rightarrow> (r, w\<lparr>remote := s', sent := sent w @ [req]\<rparr>))"

section \<open>The index store client\<close>

subsection \<open>\<^verbatim>\<open>clear_azure_search_index\<close>\<close>

definition doc_keys_of :: "config \<Rightarrow> json \<Rightarrow> exn + json list" where
  "doc_keys_of cfg results =
     (case py_get results ''value'' (JArr []) of
        Inl e \<Rightarrow> Inl e
      | Inr v \<Rightarrow>
          (case py_iter v of
             Inl e \<Rightarrow> Inl e
           | Inr ds \<Rightarrow> comprehension (\<lambda>doc. py_getitem doc (key_field cfg)) ds))"

definition delete_action :: "config \<Rightarrow> json \<Rightarrow> json" where
  "delete_action cfg key = py_dict [(''@search.action'', JStr ''delete''), (key_field cfg, key)]"

definition delete_payload :: "config \<Rightarrow> json list \<Rightarrow> json" where
  "delete_payload cfg doc_keys = py_dict [(''value'', JArr (map (delete_action cfg) doc_keys))]"

definition clear_azure_search_index ::
  "'s env \<Rightarrow> config \<Rightarrow> 's world \<Rightarrow> (exn + bool) \<times> 's world" where
  "clear_azure_search_index E cfg w =
     (case http E (ListKeys (key_field cfg)) w of
        (RequestException, w1) \<Rightarrow> (Inr False, w1)
      | (Response results, w1) \<Rightarrow>
          (case doc_keys_of cfg results of
             Inl e \<Rightarrow> (Inl e, w1)
           | Inr doc_keys \<Rightarrow>
               if doc_keys = [] then (Inr True, w1)
               else
                 (case http E (IndexBatch (delete_payload cfg doc_keys)) w1 of
                    (RequestException, w2) \<Rightarrow> (Inr False, w2)
                  | (Response _, w2) \<Rightarrow> (Inr True, w2))))"

subsection \<open>\<^verbatim>\<open>index_documents_to_azure_search\<close>\<close>

text \<open>
  The comprehension calls \<^verbatim>\<open>uuid.uuid4()\<close> once per chunk, in order. The debug print of
  \<^verbatim>\<open>docs[0]\<close> is guarded by \<^verbatim>\<open>if docs\<close> and has no effect on the result; nothing in the
  function can raise past its \<^verbatim>\<open>except\<close> clause, so the result is a plain boolean.
\<close>

definition upload_action :: "config \<Rightarrow> string \<Rightarrow> string \<Rightarrow> json" where
  "upload_action cfg key doc =
     py_dict [(''@search.action'', JStr ''upload''),
              (key_field cfg, JStr key),
              (content_field cfg, JStr doc)]"

definition documents_to_upload :: "'s env \<Rightarrow> config \<Rightarrow> nat \<Rightarrow> string list \<Rightarrow> json list" where
  "documents_to_upload E cfg n docs =
     map (\<lambda>i. upload_action cfg (uuid4 E (n + i)) (docs ! i)) [0..<length docs]"

definition upload_payload :: "'s env \<Rightarrow> config \<Rightarrow> nat \<Rightarrow> string list \<Rightarrow> json" where
  "upload_payload E cfg n docs = py_dict [(''value'', JArr (documents_to_upload E cfg n docs))]"

definition index_documents_to_azure_search ::
  "'s env \<Rightarrow> config \<Rightarrow> string list \<Rightarrow> 's world \<Rightarrow> bool \<times> 's world" where
  "index_documents_to_azure_search E cfg docs w =
     (let payload = upload_payload E cfg (uuids_drawn w) docs;
          w0 = w\<lparr>uuids_drawn := uuids_drawn w + length docs\<rparr>
      in case http E (IndexBatch payload) w0 of
           (RequestException, w1) \<Rightarrow> (False, w1)
         | (Response _, w1) \<Rightarrow> (True, w1))"

subsection \<open>\<^verbatim>\<open>search_azure_ai\<close>\<close>

text \<open>The fixed message returned when the search request fails (Korean: the search
  service call failed, see the error log on the console), as UTF-8 bytes.\<close>

definition search_failure_message :: string where
  "search_failure_message = utf8
     [0xEA, 0xB2, 0x80, 0xEC, 0x83, 0x89, 0x20, 0xEC, 0x84, 0x9C, 0xEB, 0xB9, 0x84, 0xEC, 0x8A, 0xA4,
      0x20, 0xED, 0x98, 0xB8, 0xEC, 0xB6, 0x9C, 0xEC, 0x97, 0x90, 0x20, 0xEC, 0x8B, 0xA4, 0xED, 0x8C,
      0xA8, 0xED, 0x96, 0x88, 0xEC, 0x8A, 0xB5, 0xEB, 0x8B, 0x88, 0xEB, 0x8B, 0xA4, 0x2E, 0x20, 0x43,
      0x4C, 0x49, 0x20, 0xEC, 0xBD, 0x98, 0xEC, 0x86, 0x94, 0xEC, 0x9D, 0x98, 0x20, 0xEC, 0x97, 0x90,
      0xEB, 0x9F, 0xAC, 0x20, 0xEB, 0xA1, 0x9C, 0xEA, 0xB7, 0xB8, 0xEB, 0xA5, 0xBC, 0x20, 0xED, 0x99,
      0x95, 0xEC, 0x9D, 0xB8, 0xED, 0x95, 0xB4, 0xEC, 0xA3, 0xBC, 0xEC, 0x84, 0xB8, 0xEC, 0x9A, 0x94,
      0x2E :: nat]"

definition search_payload :: "config \<Rightarrow> string \<Rightarrow> json" where
  "search_payload cfg query =
     py_dict [(''search'', JStr query),
              (''count'', JBool True),
              (''top'', JNum 5),
              (''searchFields'', JStr (content_field cfg))]"

definition contents_of :: "config \<Rightarrow> json \<Rightarrow> exn + json list" where
  "contents_of cfg results =
     (case py_get results ''value'' (JArr []) of
        Inl e \<Rightarrow> Inl e
      | Inr v \<Rightarrow>
          (case py_iter v of
             Inl e \<Rightarrow> Inl e
           | Inr ds \<Rightarrow> comprehension (\<lambda>doc. py_get doc (content_field cfg) (JStr [])) ds))"

definition search_azure_ai ::
  "'s env \<Rightarrow> config \<Rightarrow> string \<Rightarrow> 's world \<Rightarrow> (exn + string) \<times> 's world" where
  "search_azure_ai E cfg query w =
     (case http E (SearchDocs (search_payload cfg query)) w of
        (RequestException, w1) \<Rightarrow> (Inr search_failure_message, w1)
      | (Response results, w1) \<Rightarrow>
          (case contents_of cfg results of
             Inl e \<Rightarrow> (Inl e, w1)
           | Inr cs \<Rightarrow> (py_join [CHR 0x0A, CHR 0x0A] cs, w1)))"

text \<open>The text a record contributes to the context: its content field, or the empty
  string when the record has none.\<close>

definition content_or_empty :: "config \<Rightarrow> (string \<times> json) list \<Rightarrow> string" where
  "content_or_empty cfg kvs =
     (case map_of kvs (content_field cfg) of Some (JStr t) \<Rightarrow> t | _ \<Rightarrow> [])"

section \<open>The chunker: \<^verbatim>\<open>load_and_split_pdf\<close>\<close>

text \<open>
  What Streamlit's uploader hands over: the file's name and its bytes
  (\<^verbatim>\<open>file.getvalue()\<close>).
\<close>

record uploaded_file =
  name :: string
  getvalue :: string

text \<open>
  The generator \<^verbatim>\<open>page.extract_text() for page in reader.pages if page.extract_text()\<close>:
  pages are visited in order, a page whose text is \<^verbatim>\<open>None\<close> or empty is skipped, and the
  first page that raises ends the extraction.
\<close>

fun page_texts :: "(exn + string option) list \<Rightarrow> exn + string list" where
  "page_texts [] = Inr []"
| "page_texts (p # ps) =
     (case p of
        Inl e \<Rightarrow> Inl e
      | Inr t \<Rightarrow>
          (case page_texts ps of
             Inl e \<Rightarrow> Inl e
           | Inr ts \<Rightarrow>
               Inr (case t of None \<Rightarrow> ts | Some s \<Rightarrow> if s = [] then ts else s # ts)))"

text \<open>The body of the \<^verbatim>\<open>try\<close> block, given the bytes read back from the temporary
  file: \<^verbatim>\<open>"".join\<close> concatenates the page texts with nothing between them, and the
  splitter is called with the limit 1000.\<close>

definition extract_and_split :: "'s env \<Rightarrow> string \<Rightarrow> exn + string list" where
  "extract_and_split E bytes =
     (case pdf_reader E bytes of
        Inl e \<Rightarrow> Inl e
      | Inr pages \<Rightarrow>
          (case page_texts pages of
             Inl e \<Rightarrow> Inl e
           | Inr ts \<Rightarrow> split_plaintext_lines E (concat ts) 1000))"

text \<open>
  \<^verbatim>\<open>NamedTemporaryFile(delete=False)\<close> makes a file under the name the library picks
  and the bytes are written to it; the \<^verbatim>\<open>try\<close> block reads that path;
  \<^verbatim>\<open>finally\<close> removes the path whether the block returned or raised.
\<close>

definition load_and_split_pdf ::
  "'s env \<Rightarrow> uploaded_file \<Rightarrow> 's world \<Rightarrow> (exn + string list) \<times> 's world" where
  "load_and_split_pdf E file w =
     (let tmp_file_path = tmp_name E (tmp_made w);
          w1 = w\<lparr>tmp_made := Suc (tmp_made w),
                 files := (files w)(tmp_file_path \<mapsto> getvalue file)\<rparr>;
          chunks = (case files w1 tmp_file_path of
                      None \<Rightarrow> Inl FileNotFoundError
                    | Some bytes \<Rightarrow> extract_and_split E bytes);
          w2 = w1\<lparr>files := (files w1)(tmp_file_path := None)\<rparr>
      in (chunks, w2))"

section \<open>The Streamlit script\<close>

text \<open>
  \<^verbatim>\<open>streamlit.session_state\<close> holds three keys, each of which may be absent:
  \<^verbatim>\<open>rag_enabled\<close>, \<^verbatim>\<open>last_uploaded_file\<close> and \<^verbatim>\<open>messages\<close>.
\<close>

datatype role = Assistant | User

record session =
  rag_enabled :: "bool option"
  last_uploaded_file :: "string option"
  messages :: "(role \<times> string) list option"

text \<open>The prompt template \<^verbatim>\<open>qa_system_prompt\<close>, the greeting of a new session and the
  notice appended after a successful ingestion (all Korean text, as UTF-8 bytes).\<close>

definition qa_system_prompt :: string where
  "qa_system_prompt = utf8
     [0x0A, 0xEB, 0x8B, 0xB9, 0xEC, 0x8B, 0xA0, 0xEC, 0x9D, 0x80, 0x20, 0xEC, 0xA7, 0x88, 0xEB, 0xAC,
      0xB8, 0xEC, 0x97, 0x90, 0x20, 0xEB, 0x8B, 0xB5, 0xEB, 0xB3, 0x80, 0xED, 0x95, 0x98, 0xEB, 0x8A,
      0x94, 0x20, 0x41, 0x49, 0x20, 0xEC, 0x96, 0xB4, 0xEC, 0x8B, 0x9C, 0xED, 0x84, 0xB4, 0xED, 0x8A,
      0xB8, 0xEC, 0x9E, 0x85, 0xEB, 0x8B, 0x88, 0xEB, 0x8B, 0xA4, 0x2E, 0x0A, 0xEC, 0xA0, 0x9C, 0xEA,
      0xB3, 0xB5, 0xEB, 0x90, 0x9C, 0x20, 0xEC, 0xBB, 0xA8, 0xED, 0x85, 0x8D, 0xEC, 0x8A, 0xA4, 0xED,
      0x8A, 0xB8, 0x20, 0xEC, 0xA0, 0x95, 0xEB, 0xB3, 0xB4, 0xEB, 0xA5, 0xBC, 0x20, 0xEC, 0x82, 0xAC,
      0xEC, 0x9A, 0xA9, 0xED, 0x95, 0x98, 0xEC, 0x97, 0xAC, 0x20, 0xEC, 0xA7, 0x88, 0xEB, 0xAC, 0xB8,
      0xEC, 0x97, 0x90, 0x20, 0xEB, 0x8B, 0xB5, 0xEB, 0xB3, 0x80, 0xED, 0x95, 0xB4, 0x20, 0xEC, 0xA3,
      0xBC, 0xEC, 0x84, 0xB8, 0xEC, 0x9A, 0x94, 0x2E, 0x0A, 0xEB, 0xA7, 0x8C, 0xEC, 0x95, 0xBD, 0x20,
      0xEC, 0xBB, 0xA8, 0xED, 0x85, 0x8D, 0xEC, 0x8A, 0xA4, 0xED, 0x8A, 0xB8, 0xEC, 0x97, 0x90, 0xEC,
      0x84, 0x9C, 0x20, 0xEB, 0x8B, 0xB5, 0xEC, 0x9D, 0x84, 0x20, 0xEC, 0xB0, 0xBE, 0xEC, 0x9D, 0x84,
      0x20, 0xEC, 0x88, 0x98, 0x20, 0xEC, 0x97, 0x86, 0xEB, 0x8B, 0xA4, 0xEB, 0xA9, 0xB4, 0x2C, 0x20,
      0x22, 0xEC, 0xA0, 0x95, 0xEB, 0xB3, 0xB4, 0xEB, 0xA5, 0xBC, 0x20, 0xEC, 0xB0, 0xBE, 0xEC, 0x9D,
      0x84, 0x20, 0xEC, 0x88, 0x98, 0x20, 0xEC, 0x97, 0x86, 0xEC, 0x8A, 0xB5, 0xEB, 0x8B, 0x88, 0xEB,
      0x8B, 0xA4, 0x2E, 0x22, 0xEB, 0x9D, 0xBC, 0xEA, 0xB3, 0xA0, 0x20, 0xEC, 0x86, 0x94, 0xEC, 0xA7,
      0x81, 0xED, 0x95, 0x98, 0xEA, 0xB2, 0x8C, 0x20, 0xEB, 0xA7, 0x90, 0xED, 0x95, 0xB4, 0xEC, 0xA3,
      0xBC, 0xEC, 0x84, 0xB8, 0xEC, 0x9A, 0x94, 0x2E, 0x0A, 0xEB, 0x8B, 0xB5, 0xEB, 0xB3, 0x80, 0xEC,
      0x9D, 0x80, 0x20, 0xED, 0x95, 0xAD, 0xEC, 0x83, 0x81, 0x20, 0xED, 0x95, 0x9C, 0xEA, 0xB5, 0xAD,
      0xEC, 0x96, 0xB4, 0xEB, 0xA1, 0x9C, 0x2C, 0x20, 0xEC, 0xB9, 0x9C, 0xEC, 0xA0, 0x88, 0xED, 0x95,
      0x9C, 0x20, 0xEC, 0xA1, 0xB4, 0xEB, 0x8C, 0x93, 0xEB, 0xA7, 0x90, 0xEB, 0xA1, 0x9C, 0x20, 0xEC,
      0x9E, 0x91, 0xEC, 0x84, 0xB1, 0xED, 0x95, 0xB4, 0xEC, 0x95, 0xBC, 0x20, 0xED, 0x95, 0xA9, 0xEB,
      0x8B, 0x88, 0xEB, 0x8B, 0xA4, 0x2E, 0x0A, 0x0A, 0x2D, 0x2D, 0x2D, 0x0A, 0x5B, 0xEC, 0xBB, 0xA8,
      0xED, 0x85, 0x8D, 0xEC, 0x8A, 0xA4, 0xED, 0x8A, 0xB8, 0x5D, 0x3A, 0x0A, 0x7B, 0x7B, 0x24, 0x63,
      0x6F, 0x6E, 0x74, 0x65, 0x78, 0x74, 0x7D, 0x7D, 0x0A, 0x2D, 0x2D, 0x2D, 0x0A, 0x0A, 0x5B, 0xEC,
      0xA7, 0x88, 0xEB, 0xAC, 0xB8, 0x5D, 0x3A, 0x0A, 0x7B, 0x7B, 0x24, 0x69, 0x6E, 0x70, 0x75, 0x74,
      0x7D, 0x7D, 0x0A, 0x0A, 0x5B, 0xEB, 0x8B, 0xB5, 0xEB, 0xB3, 0x80, 0x5D, 0x3A, 0x0A :: nat]"

definition greeting :: string where
  "greeting = utf8
     [0xEB, 0xAC, 0xB4, 0xEC, 0x97, 0x87, 0xEC, 0x9D, 0x84, 0x20, 0xEB, 0x8F, 0x84, 0xEC, 0x99, 0x80,
      0xEB, 0x93, 0x9C, 0xEB, 0xA6, 0xB4, 0xEA, 0xB9, 0x8C, 0xEC, 0x9A, 0x94, 0x3F, 0x20, 0x50, 0x44,
      0x46, 0xEB, 0xA5, 0xBC, 0x20, 0xEC, 0x97, 0x85, 0xEB, 0xA1, 0x9C, 0xEB, 0x93, 0x9C, 0xED, 0x95,
      0x98, 0xEB, 0xA9, 0xB4, 0x20, 0xEB, 0xAC, 0xB8, 0xEC, 0x84, 0x9C, 0x20, 0xEA, 0xB8, 0xB0, 0xEB,
      0xB0, 0x98, 0x20, 0xEB, 0x8B, 0xB5, 0xEB, 0xB3, 0x80, 0xEC, 0x9D, 0xB4, 0x20, 0xEA, 0xB0, 0x80,
      0xEB, 0x8A, 0xA5, 0xED, 0x95, 0xA9, 0xEB, 0x8B, 0x88, 0xEB, 0x8B, 0xA4, 0x2E :: nat]"

definition ingest_notice :: "string \<Rightarrow> string" where
  "ingest_notice file_name =
     utf8 [0xE2, 0x9C, 0x85, 0x20, 0x2A, 0x2A :: nat] @ file_name @ utf8
     [0x2A, 0x2A, 0x20, 0xED, 0x8C, 0x8C, 0xEC, 0x9D, 0xBC, 0xEC, 0x9D, 0x98, 0x20, 0xEB, 0x82, 0xB4,
      0xEC, 0x9A, 0xA9, 0xEC, 0x9D, 0x84, 0x20, 0xEC, 0x84, 0xB1, 0xEA, 0xB3, 0xB5, 0xEC, 0xA0, 0x81,
      0xEC, 0x9C, 0xBC, 0xEB, 0xA1, 0x9C, 0x20, 0xED, 0x95, 0x99, 0xEC, 0x8A, 0xB5, 0xED, 0x96, 0x88,
      0xEC, 0x8A, 0xB5, 0xEB, 0x8B, 0x88, 0xEB, 0x8B, 0xA4, 0x2E, 0x0A, 0x0A, 0xEC, 0x9D, 0xB4, 0xEC,
      0xA0, 0x9C, 0xEB, 0xB6, 0x80, 0xED, 0x84, 0xB0, 0x20, 0xED, 0x8C, 0x8C, 0xEC, 0x9D, 0xBC, 0x20,
      0xEB, 0x82, 0xB4, 0xEC, 0x9A, 0xA9, 0xEA, 0xB3, 0xBC, 0x20, 0xEA, 0xB4, 0x80, 0xEB, 0xA0, 0xA8,
      0xEB, 0x90, 0x9C, 0x20, 0xEC, 0xA7, 0x88, 0xEB, 0xAC, 0xB8, 0xEC, 0x97, 0x90, 0x20, 0xEB, 0x8B,
      0xB5, 0xEB, 0xB3, 0x80, 0xED, 0x95, 0xA0, 0x20, 0xEC, 0x88, 0x98, 0x20, 0xEC, 0x9E, 0x88, 0xEC,
      0x8A, 0xB5, 0xEB, 0x8B, 0x88, 0xEB, 0x8B, 0xA4, 0x2E :: nat]"

text \<open>What one pass over the sidebar block shows: nothing to do, one of the two error
  labels, the success label (followed by \<^verbatim>\<open>streamlit.rerun()\<close>), or an exception that
  nothing in the block catches.\<close>

datatype ingest_status =
    Skipped
  | ClearFailed
  | UploadFailed
  | Ingested
  | IngestRaised exn

definition sidebar ::
  "'s env \<Rightarrow> config \<Rightarrow> uploaded_file option \<Rightarrow> session \<Rightarrow> 's world \<Rightarrow>
     ingest_status \<times> session \<times> 's world" where
  "sidebar E cfg uploaded S w =
     (case uploaded of
        None \<Rightarrow> (Skipped, S, w)
      | Some file \<Rightarrow>
          if last_uploaded_file S = None \<or> last_uploaded_file S \<noteq> Some (name file) then
            (case clear_azure_search_index E cfg w of
               (Inl e, w1) \<Rightarrow> (IngestRaised e, S, w1)
             | (Inr cleared, w1) \<Rightarrow>
                 if cleared then
                   (case load_and_split_pdf E file w1 of
                      (Inl e, w2) \<Rightarrow> (IngestRaised e, S, w2)
                    | (Inr split_docs, w2) \<Rightarrow>
                        (case index_documents_to_azure_search E cfg split_docs w2 of
                           (indexed, w3) \<Rightarrow>
                             if indexed then
                               (Ingested,
                                S\<lparr>rag_enabled := Some True,
                                   last_uploaded_file := Some (name file),
                                   messages :=
                                     (case messages S of
                                        None \<Rightarrow> None
                                      | Some ms \<Rightarrow>
                                          Some (ms @ [(Assistant, ingest_notice (name file))]))\<rparr>,
                                w3)
                             else (UploadFailed, S, w3)))
                 else (ClearFailed, S, w1))
          else (Skipped, S, w))"

text \<open>The greeting is stored when the session has no \<^verbatim>\<open>messages\<close> yet.\<close>

definition init_messages :: "session \<Rightarrow> session" where
  "init_messages S =
     (case messages S of None \<Rightarrow> S\<lparr>messages := Some [(Assistant, greeting)]\<rparr> | Some _ \<Rightarrow> S)"

definition llm :: "'s env \<Rightarrow> llm_call \<Rightarrow> 's world \<Rightarrow> (exn + string) \<times> 's world" where
  "llm E call w =
     (invoke_prompt E (length (llm_calls w)) call, w\<lparr>llm_calls := llm_calls w @ [call]\<rparr>)"

text \<open>
  The chat handler. The user's message is appended before the \<^verbatim>\<open>try\<close>; inside it
  every exception (of the search or of the model) is caught by \<^verbatim>\<open>except Exception\<close>,
  which only reports it. The result says whether the handler itself raised.
\<close>

definition answer ::
  "'s env \<Rightarrow> config \<Rightarrow> string \<Rightarrow> session \<Rightarrow> 's world \<Rightarrow> (exn + string) \<times> 's world" where
  "answer E cfg prompt S w =
     (if rag_enabled S = Some True then
        (case search_azure_ai E cfg prompt w of
           (Inl e, w1) \<Rightarrow> (Inl e, w1)
         | (Inr context, w1) \<Rightarrow> llm E (Templated qa_system_prompt prompt context) w1)
      else llm E (Plain prompt) w)"

definition chat_input ::
  "'s env \<Rightarrow> config \<Rightarrow> string option \<Rightarrow> session \<Rightarrow> 's world \<Rightarrow>
     exn option \<times> session \<times> 's world" where
  "chat_input E cfg prompt_opt S w =
     (case prompt_opt of
        None \<Rightarrow> (None, S, w)
      | Some prompt \<Rightarrow>
          if prompt = [] then (None, S, w)
          else
            (case messages S of
               None \<Rightarrow> (Some AttributeError, S, w)
             | Some ms \<Rightarrow>
                 (case answer E cfg prompt S w of
                    (Inl e, w1) \<Rightarrow> (None, S\<lparr>messages := Some (ms @ [(User, prompt)])\<rparr>, w1)
                  | (Inr response, w1) \<Rightarrow>
                      (None,
                       S\<lparr>messages := Some (ms @ [(User, prompt), (Assistant, response)])\<rparr>,
                       w1))))"

text \<open>
  One run of the script, on what the widgets hold in that run: the sidebar block, then
  the greeting, then the chat handler. \<^verbatim>\<open>streamlit.rerun()\<close> and an uncaught exception
  end the run where they happen; the session state keeps what was stored until then.
\<close>

datatype run_end =
    Finished
  | Rerun
  | Uncaught exn

definition script ::
  "'s env \<Rightarrow> config \<Rightarrow> uploaded_file option \<Rightarrow> string option \<Rightarrow> session \<Rightarrow> 's world \<Rightarrow>
     run_end \<times> session \<times> 's world" where
  "script E cfg uploaded prompt_opt S w =
     (case sidebar E cfg uploaded S w of
        (Ingested, S1, w1) \<Rightarrow> (Rerun, S1, w1)
      | (IngestRaised e, S1, w1) \<Rightarrow> (Uncaught e, S1, w1)
      | (_, S1, w1) \<Rightarrow>
          (case chat_input E cfg prompt_opt (init_messages S1) w1 of
             (None, S2, w2) \<Rightarrow> (Finished, S2, w2)
           | (Some e, S2, w2) \<Rightarrow> (Uncaught e, S2, w2)))"

text \<open>A session is a sequence of runs, each with the widget values of that run.\<close>

fun session_run ::
  "'s env \<Rightarrow> config \<Rightarrow> (uploaded_file option \<times> string option) list \<Rightarrow> session \<Rightarrow> 's world \<Rightarrow>
     session \<times> 's world" where
  "session_run E cfg [] S w = (S, w)"
| "session_run E cfg (ev # evs) S w =
     (case script E cfg (fst ev) (snd ev) S w of
        (_, S1, w1) \<Rightarrow> session_run E cfg evs S1 w1)"

section \<open>A reference service\<close>

text \<open>
  The functions above are stated for any remote service. Statements about what the
  index holds afterwards need one: this is the service the interface presumes, an index
  of records by key. A request that the transport drops (\<open>up n\<close> false for the \<open>n\<close>-th
  request) or a malformed batch is answered by a failure and changes nothing; the
  listing returns the selected field with the key of every record; a batch is applied
  action by action (\<^verbatim>\<open>delete\<close> removes the record of that key, \<^verbatim>\<open>upload\<close> replaces or
  adds it); a query returns the first five records of a ranking that is left open.
\<close>

record store =
  stored :: "(json \<times> json) list"
  served :: nat

fun apply_action :: "string \<Rightarrow> (json \<times> json) list \<Rightarrow> json \<Rightarrow> (json \<times> json) list option" where
  "apply_action kf ds (JObj a) =
     (case map_of a ''@search.action'' of
        Some (JStr act) \<Rightarrow>
          (case map_of a kf of
             Some k \<Rightarrow>
               if act = ''delete'' then Some (filter (\<lambda>kd. fst kd \<noteq> k) ds)
               else if act = ''upload'' then
                 Some (filter (\<lambda>kd. fst kd \<noteq> k) ds
                       @ [(k, JObj (filter (\<lambda>kv. fst kv \<noteq> ''@search.action'') a))])
               else None
           | None \<Rightarrow> None)
      | _ \<Rightarrow> None)"
| "apply_action kf ds _ = None"

fun apply_actions :: "string \<Rightarrow> (json \<times> json) list \<Rightarrow> json list \<Rightarrow> (json \<times> json) list option" where
  "apply_actions kf ds [] = Some ds"
| "apply_actions kf ds (a # as) =
     (case apply_action kf ds a of None \<Rightarrow> None | Some ds' \<Rightarrow> apply_actions kf ds' as)"

definition apply_batch :: "string \<Rightarrow> json \<Rightarrow> (json \<times> json) list \<Rightarrow> (json \<times> json) list option" where
  "apply_batch kf body ds =
     (case body of
        JObj kvs \<Rightarrow>
          (case map_of kvs ''value'' of Some (JArr as) \<Rightarrow> apply_actions kf ds as | _ \<Rightarrow> None)
      | _ \<Rightarrow> None)"

definition reference_service ::
  "config \<Rightarrow> (nat \<Rightarrow> bool) \<Rightarrow> (json \<Rightarrow> json list \<Rightarrow> json list) \<Rightarrow> request \<Rightarrow> store \<Rightarrow> reply \<times> store" where
  "reference_service cfg up rank req st =
     (let st' = st\<lparr>served := Suc (served st)\<rparr>
      in if \<not> up (served st) then (RequestException, st')
         else
           (case req of
              ListKeys f \<Rightarrow>
                (Response (JObj [(''value'', JArr (map (\<lambda>kd. JObj [(f, fst kd)]) (stored st)))]), st')
            | IndexBatch body \<Rightarrow>
                (case apply_batch (key_field cfg) body (stored st) of
                   None \<Rightarrow> (RequestException, st')
                 | Some ds \<Rightarrow> (Response (JObj []), st'\<lparr>stored := ds\<rparr>))
            | SearchDocs body \<Rightarrow>
                (Response (JObj [(''value'', JArr (take 5 (rank body (map snd (stored st)))))]), st')))"

section \<open>Sample environments\<close>

text \<open>Concrete environments on which the theorems below are instantiated: a PDF reader
  that finds one page of text in every file, a splitter that returns the text as one
  chunk, a model that echoes, and the reference service with a given transport.\<close>

definition sample_env :: "(nat \<Rightarrow> bool) \<Rightarrow> store env" where
  "sample_env up =
     \<lparr>service = reference_service default_config up (\<lambda>q ds. ds),
      uuid4 = (\<lambda>n. replicate (Suc n) CHR ''u''),
      tmp_name = (\<lambda>n. ''/tmp/tmp'' @ replicate n CHR ''x'' @ ''.pdf''),
      pdf_reader = (\<lambda>bytes. Inr [Inr (Some bytes)]),
      split_plaintext_lines = (\<lambda>text n. Inr (if text = [] then [] else [text])),
      invoke_prompt = (\<lambda>n call. Inr ''ok'')\<rparr>"

definition broken_pdf_env :: "store env" where
  "broken_pdf_env = (sample_env (\<lambda>n. True))\<lparr>pdf_reader := (\<lambda>bytes. Inl (LibraryError ''PdfReadError''))\<rparr>"

definition sample_world :: "(json \<times> json) list \<Rightarrow> store world" where
  "sample_world ds =
     \<lparr>remote = \<lparr>stored = ds, served = 0\<rparr>,
      sent = [],
      uuids_drawn = 0,
      tmp_made = 0,
      files = Map.empty,
      llm_calls = []\<rparr>"

definition old_records :: "(json \<times> json) list" where
  "old_records =
     [(JStr ''k1'', JObj [(''id'', JStr ''k1''), (''content'', JStr ''first'')]),
      (JStr ''k2'', JObj [(''id'', JStr ''k2'')]),
      (JStr ''k3'', JObj [(''id'', JStr ''k3''), (''content'', JStr ''third'')])]"

definition fresh_session :: session where
  "fresh_session = \<lparr>rag_enabled = None, last_uploaded_file = None, messages = None\<rparr>"

definition grounded_session :: session where
  "grounded_session =
     \<lparr>rag_enabled = Some True, last_uploaded_file = Some ''old.pdf'', messages = Some []\<rparr>"

definition report_pdf :: uploaded_file where
  "report_pdf = \<lparr>name = ''report.pdf'', getvalue = ''line one''\<rparr>"

section \<open>Basic facts\<close>

lemmas sample_defs =
  sample_env_def sample_world_def default_config_def old_records_def reference_service_def
  grounded_session_def fresh_session_def report_pdf_def broken_pdf_env_def

lemma http_eq:
  "http E req w = (fst (service E req (remote w)),
                   w\<lparr>remote := snd (service E req (remote w)), sent := sent w @ [req]\<rparr>)"
  by (simp add: http_def split: prod.splits)

lemma single_value_dict: "py_dict [(''value'', v)] = JObj [(''value'', v)]"
  by (simp add: py_dict_def dict_set_def)

lemma clear_sent:
  "\<exists>rest. sent (snd (clear_azure_search_index E cfg w)) = sent w @ ListKeys (key_field cfg) # rest"
  by (auto simp: clear_azure_search_index_def http_eq split: reply.splits sum.splits)

lemma load_sent: "sent (snd (load_and_split_pdf E pdf w)) = sent w"
  by (simp add: load_and_split_pdf_def Let_def)

lemma upload_sent:
  "\<exists>rest. sent (snd (index_documents_to_azure_search E cfg chunks w)) = sent w @ rest"
  by (auto simp: index_documents_to_azure_search_def http_eq Let_def split: reply.splits)


section \<open>Extracting the text\<close>

text \<open>When no page raises, the text handed to the splitter is the page texts that are
  neither \<^verbatim>\<open>None\<close> nor empty, in page order, with nothing between them; when no page
  has text, the splitter is called on the empty string.\<close>

lemma page_texts_readable:
  "page_texts (map Inr ts) =
     Inr (concat (map (\<lambda>t. case t of None \<Rightarrow> [] | Some s \<Rightarrow> if s = [] then [] else [s]) ts))"
  by (induction ts) (auto split: option.splits)

lemma extract_and_split_readable:
  assumes "pdf_reader E bytes = Inr (map Inr ts)"
  shows "extract_and_split E bytes =
           split_plaintext_lines E (concat (map (\<lambda>t. case t of None \<Rightarrow> [] | Some s \<Rightarrow> s) ts)) 1000"
proof -
  have "concat (concat (map (\<lambda>t. case t of None \<Rightarrow> [] | Some s \<Rightarrow> if s = [] then [] else [s]) ts)) =
        concat (map (\<lambda>t. case t of None \<Rightarrow> [] | Some s \<Rightarrow> s) ts)"
    by (induction ts) (auto split: option.splits)
  with assms show ?thesis
    by (simp add: extract_and_split_def page_texts_readable)
qed

lemma extract_and_split_no_text:
  assumes "pdf_reader E bytes = Inr (map Inr ts)"
    and "\<forall>t\<in>set ts. t = None \<or> t = Some []"
  shows "extract_and_split E bytes = split_plaintext_lines E [] 1000"
proof -
  from assms(2) have "concat (map (\<lambda>t. case t of None \<Rightarrow> [] | Some s \<Rightarrow> s) ts) = []"
    by (induction ts) auto
  with extract_and_split_readable [OF assms(1)] show ?thesis
    by simp
qed

section \<open>Uploading chunks\<close>









section \<open>Clearing the index\<close>

lemma delete_action_eq:
  "key_field cfg \<noteq> ''@search.action'' \<Longrightarrow>
   delete_action cfg k = JObj [(''@search.action'', JStr ''delete''), (key_field cfg, k)]"
  by (auto simp: delete_action_def py_dict_def dict_set_def)

lemma apply_delete_action:
  "key_field cfg \<noteq> ''@search.action'' \<Longrightarrow>
   apply_action (key_field cfg) ds (delete_action cfg k) = Some (filter (\<lambda>kd. fst kd \<noteq> k) ds)"
  by (simp add: delete_action_eq)

lemma apply_delete_actions:
  "key_field cfg \<noteq> ''@search.action'' \<Longrightarrow>
   apply_actions (key_field cfg) ds (map (delete_action cfg) ks) =
     Some (filter (\<lambda>kd. fst kd \<notin> set ks) ds)"
proof (induction ks arbitrary: ds)
  case Nil
  show ?case by simp
next
  case (Cons k ks)
  have "filter (\<lambda>kd. fst kd \<notin> set ks) (filter (\<lambda>kd. fst kd \<noteq> k) ds) =
        filter (\<lambda>kd. fst kd \<notin> set (k # ks)) ds"
    by (induction ds) auto
  with Cons show ?case
    by (simp add: apply_delete_action del: filter_filter)
qed

lemma apply_delete_all:
  "key_field cfg \<noteq> ''@search.action'' \<Longrightarrow>
   apply_batch (key_field cfg) (delete_payload cfg (map fst ds)) ds = Some []"
proof -
  assume k: "key_field cfg \<noteq> ''@search.action''"
  have "filter (\<lambda>kd. fst kd \<notin> set (map fst ds)) ds = []"
    by (induction ds) auto
  with k apply_delete_actions [of cfg ds "map fst ds"] show ?thesis
    by (simp add: apply_batch_def delete_payload_def single_value_dict del: map_map)
qed

lemma listed_keys:
  "doc_keys_of cfg (JObj [(''value'', JArr (map (\<lambda>kd. JObj [(key_field cfg, fst kd)]) ds))]) =
     Inr (map fst ds)"
proof -
  have "comprehension (\<lambda>doc. py_getitem doc (key_field cfg))
          (map (\<lambda>kd. JObj [(key_field cfg, fst kd)]) ds) = Inr (map fst ds)"
    by (induction ds) auto
  then show ?thesis by (simp add: doc_keys_of_def)
qed

lemma clear_on_reference_service:
  assumes svc: "service E = reference_service cfg up rank"
    and kf: "key_field cfg \<noteq> ''@search.action''"
  shows "clear_azure_search_index E cfg w =
     (if \<not> up (served (remote w)) then
        (Inr False, w\<lparr>remote := (remote w)\<lparr>served := Suc (served (remote w))\<rparr>,
                      sent := sent w @ [ListKeys (key_field cfg)]\<rparr>)
      else if stored (remote w) = [] then
        (Inr True, w\<lparr>remote := (remote w)\<lparr>served := Suc (served (remote w))\<rparr>,
                     sent := sent w @ [ListKeys (key_field cfg)]\<rparr>)
      else if \<not> up (Suc (served (remote w))) then
        (Inr False, w\<lparr>remote := (remote w)\<lparr>served := Suc (Suc (served (remote w)))\<rparr>,
                      sent := sent w @ [ListKeys (key_field cfg),
                                        IndexBatch (delete_payload cfg (map fst (stored (remote w))))]\<rparr>)
      else
        (Inr True, w\<lparr>remote := (remote w)\<lparr>served := Suc (Suc (served (remote w))), stored := []\<rparr>,
                     sent := sent w @ [ListKeys (key_field cfg),
                                       IndexBatch (delete_payload cfg (map fst (stored (remote w))))]\<rparr>))"
  using kf
  by (simp add: clear_azure_search_index_def http_eq svc reference_service_def Let_def
        listed_keys apply_delete_all)




section \<open>Building the context\<close>

lemma comprehension_get_objects:
  "comprehension (\<lambda>doc. py_get doc k d) (map JObj recs) =
     Inr (map (\<lambda>kvs. case map_of kvs k of None \<Rightarrow> d | Some v \<Rightarrow> v) recs)"
  by (induction recs) auto

lemma comprehension_contents:
  assumes "\<forall>kvs\<in>set recs. \<forall>v. map_of kvs (content_field cfg) = Some v \<longrightarrow> (\<exists>t. v = JStr t)"
  shows "comprehension as_str
           (map (\<lambda>kvs. case map_of kvs (content_field cfg) of None \<Rightarrow> JStr [] | Some v \<Rightarrow> v) recs) =
         Inr (map (content_or_empty cfg) recs)"
  using assms
proof (induction recs)
  case Nil
  show ?case by simp
next
  case (Cons kvs recs)
  then have tail: "comprehension as_str
           (map (\<lambda>kvs. case map_of kvs (content_field cfg) of None \<Rightarrow> JStr [] | Some v \<Rightarrow> v) recs) =
         Inr (map (content_or_empty cfg) recs)"
    by simp
  show ?case
  proof (cases "map_of kvs (content_field cfg)")
    case None
    with tail show ?thesis by (simp add: content_or_empty_def)
  next
    case (Some v)
    with Cons.prems obtain t where "v = JStr t" by auto
    with Some tail show ?thesis by (simp add: content_or_empty_def)
  qed
qed

lemma search_failure_message_nonempty: "search_failure_message \<noteq> []"
  by (simp add: search_failure_message_def utf8_def)

text \<open>
  Claim C4. When the search request goes through and its \<^verbatim>\<open>value\<close> is a list of records
  (each a dict whose content field, if present, is a string), \<^verbatim>\<open>search_azure_ai\<close> returns
  the records' contents, the empty string for a record without the field, in the order
  of the reply, joined by two newlines. With no record the result is the empty string,
  which is not the failure message.
\<close>

theorem build_context_joins_contents:
  assumes "fst (service E (SearchDocs (search_payload cfg query)) (remote w)) = Response results"
    and "py_get results ''value'' (JArr []) = Inr (JArr (map JObj recs))"
    and "\<forall>kvs\<in>set recs. \<forall>v. map_of kvs (content_field cfg) = Some v \<longrightarrow> (\<exists>t. v = JStr t)"
  shows "fst (search_azure_ai E cfg query w) =
           Inr (join [CHR 0x0A, CHR 0x0A] (map (content_or_empty cfg) recs)) \<and>
         (recs = [] \<longrightarrow> fst (search_azure_ai E cfg query w) = Inr []) \<and>
         search_failure_message \<noteq> []"
proof -
  have c: "contents_of cfg results =
             Inr (map (\<lambda>kvs. case map_of kvs (content_field cfg) of None \<Rightarrow> JStr [] | Some v \<Rightarrow> v) recs)"
    using assms(2) by (simp add: contents_of_def comprehension_get_objects)
  have "fst (search_azure_ai E cfg query w) =
           Inr (join [CHR 0x0A, CHR 0x0A] (map (content_or_empty cfg) recs))"
    using assms(1) c comprehension_contents [OF assms(3)]
    by (simp add: search_azure_ai_def http_eq py_join_def)
  then show ?thesis
    by (auto simp: search_failure_message_nonempty)
qed

theorem build_context_joins_contents_witness:
  "fst (search_azure_ai (sample_env (\<lambda>n. True)) default_config ''what'' (sample_world old_records)) =
     Inr (''first'' @ [CHR 0x0A, CHR 0x0A] @ [] @ [CHR 0x0A, CHR 0x0A] @ ''third'')"
proof -
  let ?E = "sample_env (\<lambda>n. True)"
  let ?w = "sample_world old_records"
  let ?recs = "[[(''id'', JStr ''k1''), (''content'', JStr ''first'')],
                [(''id'', JStr ''k2'')],
                [(''id'', JStr ''k3''), (''content'', JStr ''third'')]]"
  have h1: "fst (service ?E (SearchDocs (search_payload default_config ''what'')) (remote ?w)) =
              Response (JObj [(''value'', JArr (map JObj ?recs))])"
    by (simp add: sample_defs)
  have h2: "py_get (JObj [(''value'', JArr (map JObj ?recs))]) ''value'' (JArr []) =
              Inr (JArr (map JObj ?recs))"
    by simp
  have h3: "\<forall>kvs\<in>set ?recs. \<forall>v. map_of kvs (content_field default_config) = Some v \<longrightarrow> (\<exists>t. v = JStr t)"
    by (simp add: default_config_def)
  from build_context_joins_contents [OF h1 h2 h3] show ?thesis
    by (simp add: content_or_empty_def default_config_def)
qed

text \<open>
  Claim C5. When the search request fails, \<^verbatim>\<open>search_azure_ai\<close> returns the fixed failure
  message instead of raising, for every query; and the chat handler in grounded mode
  then calls the model with the template, the query as input and that message as
  context, and does not raise whatever the model does.
\<close>

theorem search_failure_yields_message:
  assumes "request_fails E (SearchDocs (search_payload cfg query)) (remote w)"
  shows "fst (search_azure_ai E cfg query w) = Inr search_failure_message \<and>
         (rag_enabled S = Some True \<and> messages S \<noteq> None \<and> query \<noteq> [] \<longrightarrow>
            fst (chat_input E cfg (Some query) S w) = None \<and>
            llm_calls (snd (snd (chat_input E cfg (Some query) S w))) =
              llm_calls w @ [Templated qa_system_prompt query search_failure_message])"
proof -
  have s: "search_azure_ai E cfg query w =
             (Inr search_failure_message,
              w\<lparr>remote := snd (service E (SearchDocs (search_payload cfg query)) (remote w)),
                sent := sent w @ [SearchDocs (search_payload cfg query)]\<rparr>)"
    using assms by (simp add: search_azure_ai_def http_eq request_fails_def)
  show ?thesis
    using s
    by (auto simp: chat_input_def answer_def llm_def split: sum.splits prod.splits)
qed

theorem search_failure_yields_message_witness:
  "request_fails (sample_env (\<lambda>n. False)) (SearchDocs (search_payload default_config ''what''))
     (remote (sample_world old_records)) \<and>
   fst (search_azure_ai (sample_env (\<lambda>n. False)) default_config ''what'' (sample_world old_records)) =
     Inr search_failure_message \<and>
   fst (chat_input (sample_env (\<lambda>n. False)) default_config (Some ''what'') grounded_session
          (sample_world old_records)) = None \<and>
   llm_calls (snd (snd (chat_input (sample_env (\<lambda>n. False)) default_config (Some ''what'')
                          grounded_session (sample_world old_records)))) =
     [Templated qa_system_prompt ''what'' search_failure_message]"
proof -
  have h: "request_fails (sample_env (\<lambda>n. False)) (SearchDocs (search_payload default_config ''what''))
             (remote (sample_world old_records))"
    by (simp add: request_fails_def sample_defs)
  have s: "rag_enabled grounded_session = Some True \<and> messages grounded_session \<noteq> None \<and>
           ''what'' \<noteq> []"
    by (simp add: grounded_session_def)
  have l: "llm_calls (sample_world old_records :: store world) = []"
    by (simp add: sample_world_def)
  from search_failure_yields_message [OF h, of grounded_session] h s l show ?thesis
    by simp
qed


section \<open>Failures of the remote calls\<close>

text \<open>
  Claim C6. A request failure in \<^verbatim>\<open>clear_azure_search_index\<close> or in
  \<^verbatim>\<open>index_documents_to_azure_search\<close> never leaves the function as an exception: it
  becomes the result false. Clearing returns true exactly when the listing went through
  and either listed no key or the delete batch went through; the only exceptions it can
  raise come from a reply that went through with a malformed body. Uploading returns
  true exactly when its one batch request went through.
\<close>

theorem remote_failures_become_booleans:
  "(request_fails E (ListKeys (key_field cfg)) (remote w) \<longrightarrow>
      fst (clear_azure_search_index E cfg w) = Inr False) \<and>
   (\<forall>results ks.
      fst (service E (ListKeys (key_field cfg)) (remote w)) = Response results \<and>
      doc_keys_of cfg results = Inr ks \<longrightarrow>
      fst (clear_azure_search_index E cfg w) =
        Inr (ks = [] \<or>
             \<not> request_fails E (IndexBatch (delete_payload cfg ks))
                  (snd (service E (ListKeys (key_field cfg)) (remote w))))) \<and>
   (\<forall>e. fst (clear_azure_search_index E cfg w) = Inl e \<longrightarrow>
      (\<exists>results. fst (service E (ListKeys (key_field cfg)) (remote w)) = Response results \<and>
                  doc_keys_of cfg results = Inl e)) \<and>
   fst (index_documents_to_azure_search E cfg chunks w) =
     (\<not> request_fails E (IndexBatch (upload_payload E cfg (uuids_drawn w) chunks)) (remote w))"
proof (intro conjI allI impI)
  assume "request_fails E (ListKeys (key_field cfg)) (remote w)"
  then show "fst (clear_azure_search_index E cfg w) = Inr False"
    by (simp add: clear_azure_search_index_def http_eq request_fails_def)
next
  fix results ks
  assume a: "fst (service E (ListKeys (key_field cfg)) (remote w)) = Response results \<and>
      doc_keys_of cfg results = Inr ks"
  show "fst (clear_azure_search_index E cfg w) =
        Inr (ks = [] \<or>
             \<not> request_fails E (IndexBatch (delete_payload cfg ks))
                  (snd (service E (ListKeys (key_field cfg)) (remote w))))"
    using a
    by (auto simp: clear_azure_search_index_def http_eq request_fails_def
             split: reply.splits prod.splits)
next
  fix e
  assume "fst (clear_azure_search_index E cfg w) = Inl e"
  then show "\<exists>results. fst (service E (ListKeys (key_field cfg)) (remote w)) = Response results \<and>
                     doc_keys_of cfg results = Inl e"
    by (auto simp: clear_azure_search_index_def http_eq
             split: reply.splits prod.splits sum.splits if_splits)
next
  show "fst (index_documents_to_azure_search E cfg chunks w) =
     (\<not> request_fails E (IndexBatch (upload_payload E cfg (uuids_drawn w) chunks)) (remote w))"
    by (auto simp: index_documents_to_azure_search_def http_eq request_fails_def Let_def
             split: reply.splits prod.splits)
qed

theorem remote_failures_become_booleans_witness:
  "request_fails (sample_env (\<lambda>n. False)) (ListKeys (key_field default_config))
     (remote (sample_world old_records)) \<and>
   fst (clear_azure_search_index (sample_env (\<lambda>n. False)) default_config (sample_world old_records)) =
     Inr False \<and>
   fst (index_documents_to_azure_search (sample_env (\<lambda>n. False)) default_config [''a'']
          (sample_world old_records)) = False"
proof -
  let ?E = "sample_env (\<lambda>n. False)"
  let ?w = "sample_world old_records"
  have h: "request_fails ?E (ListKeys (key_field default_config)) (remote ?w)"
    by (simp add: request_fails_def sample_defs)
  have u: "request_fails ?E (IndexBatch (upload_payload ?E default_config (uuids_drawn ?w) [''a'']))
             (remote ?w)"
    by (simp add: request_fails_def sample_env_def reference_service_def sample_world_def Let_def)
  from remote_failures_become_booleans [of ?E default_config ?w "[''a'']"] h u show ?thesis
    by simp
qed


section \<open>The ingestion sequence\<close>

text \<open>
  Claim C7. When an ingestion is attempted and the clear returns false, or the clear and
  the split succeed and the upload returns false, the sidebar block ends with the
  corresponding error label and the session state is what it was before; in either case
  the RAG flag and the name of the last ingested file are unchanged.
\<close>

theorem failed_ingestion_keeps_session:
  assumes "last_uploaded_file S \<noteq> Some (name pdf)"
  shows
    "(fst (clear_azure_search_index E cfg w) = Inr False \<longrightarrow>
        sidebar E cfg (Some pdf) S w = (ClearFailed, S, snd (clear_azure_search_index E cfg w))) \<and>
     (\<forall>w1 chunks w2.
        clear_azure_search_index E cfg w = (Inr True, w1) \<and>
        load_and_split_pdf E pdf w1 = (Inr chunks, w2) \<and>
        fst (index_documents_to_azure_search E cfg chunks w2) = False \<longrightarrow>
        sidebar E cfg (Some pdf) S w =
          (UploadFailed, S, snd (index_documents_to_azure_search E cfg chunks w2))) \<and>
     (\<forall>st S' w'.
        sidebar E cfg (Some pdf) S w = (st, S', w') \<and> (st = ClearFailed \<or> st = UploadFailed) \<longrightarrow>
        rag_enabled S' = rag_enabled S \<and> last_uploaded_file S' = last_uploaded_file S)"
  using assms
  by (auto simp: sidebar_def split: prod.splits sum.splits if_splits)

theorem failed_ingestion_keeps_session_witness:
  "last_uploaded_file grounded_session \<noteq> Some (name report_pdf) \<and>
   fst (clear_azure_search_index (sample_env (\<lambda>n. False)) default_config (sample_world old_records)) =
     Inr False \<and>
   fst (sidebar (sample_env (\<lambda>n. False)) default_config (Some report_pdf) grounded_session
          (sample_world old_records)) = ClearFailed \<and>
   fst (snd (sidebar (sample_env (\<lambda>n. False)) default_config (Some report_pdf) grounded_session
               (sample_world old_records))) = grounded_session \<and>
   rag_enabled grounded_session = Some True \<and>
   last_uploaded_file grounded_session = Some ''old.pdf''"
proof -
  let ?E = "sample_env (\<lambda>n. False)"
  let ?w = "sample_world old_records"
  have h: "last_uploaded_file grounded_session \<noteq> Some (name report_pdf)"
    by (simp add: grounded_session_def report_pdf_def)
  have c: "fst (clear_azure_search_index ?E default_config ?w) = Inr False"
    by (simp add: clear_azure_search_index_def http_eq sample_defs)
  have g: "rag_enabled grounded_session = Some True \<and>
           last_uploaded_file grounded_session = Some ''old.pdf''"
    by (simp add: grounded_session_def)
  from failed_ingestion_keeps_session [OF h, of ?E default_config ?w] h c g show ?thesis
    by simp
qed

lemma sidebar_sent_triggered:
  assumes "last_uploaded_file S \<noteq> Some (name pdf)"
  shows "\<exists>rest. sent (snd (snd (sidebar E cfg (Some pdf) S w))) =
                 sent w @ ListKeys (key_field cfg) # rest"
proof -
  obtain r w1 where c: "clear_azure_search_index E cfg w = (r, w1)"
    by (cases "clear_azure_search_index E cfg w")
  from clear_sent [of E cfg w] c obtain rest1 where
    s1: "sent w1 = sent w @ ListKeys (key_field cfg) # rest1" by auto
  show ?thesis
  proof (cases r)
    case (Inl e)
    with c s1 assms show ?thesis by (auto simp: sidebar_def)
  next
    case (Inr cleared)
    show ?thesis
    proof (cases cleared)
      case False
      with Inr c s1 assms show ?thesis by (auto simp: sidebar_def)
    next
      case True
      obtain l w2 where l: "load_and_split_pdf E pdf w1 = (l, w2)"
        by (cases "load_and_split_pdf E pdf w1")
      from load_sent [of E pdf w1] l have s2: "sent w2 = sent w1" by simp
      show ?thesis
      proof (cases l)
        case (Inl e)
        with True Inr c l s1 s2 assms show ?thesis by (auto simp: sidebar_def)
      next
        case (Inr chunks)
        obtain ok w3 where u: "index_documents_to_azure_search E cfg chunks w2 = (ok, w3)"
          by (cases "index_documents_to_azure_search E cfg chunks w2")
        from upload_sent [of E cfg chunks w2] u obtain rest3 where
          s3: "sent w3 = sent w2 @ rest3" by auto
        from True \<open>r = Inr cleared\<close> Inr c l u s1 s2 s3 assms show ?thesis
          by (auto simp: sidebar_def)
      qed
    qed
  qed
qed

text \<open>
  Claim C8. A file whose name equals the last ingested file's name changes nothing: the
  session and the world stay as they are, so no request is sent, whatever the file's
  bytes are. A file with any other name (or any file when nothing was ingested yet)
  starts an ingestion, whose first request is the key listing; and the sidebar block
  sends a request only in that case.
\<close>

theorem same_identity_is_noop:
  "(last_uploaded_file S = Some (name old) \<and> name new = name old \<longrightarrow>
      sidebar E cfg (Some new) S w = (Skipped, S, w)) \<and>
   (last_uploaded_file S \<noteq> Some (name new) \<longrightarrow>
      (\<exists>rest. sent (snd (snd (sidebar E cfg (Some new) S w))) =
                 sent w @ ListKeys (key_field cfg) # rest)) \<and>
   (sent (snd (snd (sidebar E cfg uploaded S w))) \<noteq> sent w \<longrightarrow>
      (\<exists>pdf. uploaded = Some pdf \<and> last_uploaded_file S \<noteq> Some (name pdf)))"
proof (intro conjI impI)
  assume "last_uploaded_file S = Some (name old) \<and> name new = name old"
  then show "sidebar E cfg (Some new) S w = (Skipped, S, w)"
    by (simp add: sidebar_def)
next
  assume "last_uploaded_file S \<noteq> Some (name new)"
  then show "\<exists>rest. sent (snd (snd (sidebar E cfg (Some new) S w))) =
                 sent w @ ListKeys (key_field cfg) # rest"
    by (rule sidebar_sent_triggered)
next
  assume a: "sent (snd (snd (sidebar E cfg uploaded S w))) \<noteq> sent w"
  show "\<exists>pdf. uploaded = Some pdf \<and> last_uploaded_file S \<noteq> Some (name pdf)"
  proof (cases uploaded)
    case None
    with a show ?thesis by (simp add: sidebar_def)
  next
    case (Some pdf)
    with a show ?thesis by (auto simp: sidebar_def split: if_splits)
  qed
qed

theorem same_identity_is_noop_witness:
  "last_uploaded_file grounded_session = Some (name \<lparr>name = ''old.pdf'', getvalue = ''one''\<rparr>) \<and>
   sidebar (sample_env (\<lambda>n. True)) default_config
     (Some \<lparr>name = ''old.pdf'', getvalue = ''other bytes''\<rparr>) grounded_session
     (sample_world old_records) = (Skipped, grounded_session, sample_world old_records) \<and>
   last_uploaded_file grounded_session \<noteq> Some (name report_pdf) \<and>
   (\<exists>rest. sent (snd (snd (sidebar (sample_env (\<lambda>n. True)) default_config (Some report_pdf)
                                 grounded_session (sample_world old_records)))) =
             sent (sample_world old_records :: store world) @ ListKeys ''id'' # rest)"
proof -
  let ?E = "sample_env (\<lambda>n. True)"
  let ?w = "sample_world old_records"
  let ?old = "\<lparr>name = ''old.pdf'', getvalue = ''one''\<rparr>"
  let ?new = "\<lparr>name = ''old.pdf'', getvalue = ''other bytes''\<rparr>"
  have h1: "last_uploaded_file grounded_session = Some (name ?old) \<and> name ?new = name ?old"
    by (simp add: grounded_session_def)
  have h2: "last_uploaded_file grounded_session \<noteq> Some (name report_pdf)"
    by (simp add: grounded_session_def report_pdf_def)
  have k: "key_field default_config = ''id''"
    by (simp add: default_config_def)
  from same_identity_is_noop [of grounded_session ?old ?new ?E default_config ?w]
    same_identity_is_noop [of grounded_session ?old report_pdf ?E default_config ?w]
    h1 h2 k
  show ?thesis by simp
qed


section \<open>The temporary file\<close>




section \<open>The RAG flag\<close>

lemma sidebar_rag_enabled:
  "rag_enabled S = Some True \<Longrightarrow> rag_enabled (fst (snd (sidebar E cfg uploaded S w))) = Some True"
  by (auto simp: sidebar_def split: option.splits prod.splits sum.splits)

lemma init_messages_rag_enabled: "rag_enabled (init_messages S) = rag_enabled S"
  by (simp add: init_messages_def split: option.splits)

lemma chat_input_rag_enabled:
  "rag_enabled (fst (snd (chat_input E cfg prompt_opt S w))) = rag_enabled S"
  by (auto simp: chat_input_def split: option.splits prod.splits sum.splits)

lemma script_rag_enabled:
  assumes "rag_enabled S = Some True"
  shows "rag_enabled (fst (snd (script E cfg uploaded prompt_opt S w))) = Some True"
proof -
  obtain st S1 w1 where sb: "sidebar E cfg uploaded S w = (st, S1, w1)"
    by (cases "sidebar E cfg uploaded S w") auto
  from sidebar_rag_enabled [OF assms, of E cfg uploaded w] sb
  have r1: "rag_enabled S1 = Some True" by simp
  obtain x S2 w2 where ci: "chat_input E cfg prompt_opt (init_messages S1) w1 = (x, S2, w2)"
    by (cases "chat_input E cfg prompt_opt (init_messages S1) w1") auto
  from chat_input_rag_enabled [of E cfg prompt_opt "init_messages S1" w1] ci r1
  have r2: "rag_enabled S2 = Some True" by (simp add: init_messages_rag_enabled)
  show ?thesis
    using sb ci r1 r2 by (cases st; cases x) (simp_all add: script_def)
qed

text \<open>
  Claim C10. Once \<^verbatim>\<open>rag_enabled\<close> is true it stays true through every later run of the
  script, whatever is uploaded or asked and however the service, the PDF reader, the
  splitter and the model behave.
\<close>

theorem rag_enabled_monotonic:
  assumes "rag_enabled S = Some True"
  shows "rag_enabled (fst (session_run E cfg events S w)) = Some True"
  using assms
proof (induction events arbitrary: S w)
  case Nil
  then show ?case by simp
next
  case (Cons ev events)
  obtain e S1 w1 where sc: "script E cfg (fst ev) (snd ev) S w = (e, S1, w1)"
    by (cases "script E cfg (fst ev) (snd ev) S w") auto
  from script_rag_enabled [OF Cons.prems, of E cfg "fst ev" "snd ev" w] sc
  have "rag_enabled S1 = Some True" by simp
  then have "rag_enabled (fst (session_run E cfg events S1 w1)) = Some True"
    by (rule Cons.IH)
  with sc show ?case by simp
qed

theorem rag_enabled_monotonic_witness:
  "rag_enabled grounded_session = Some True \<and>
   rag_enabled (fst (session_run (sample_env (\<lambda>n. n < 2)) default_config
                       [(Some report_pdf, None), (Some report_pdf, Some ''what'')]
                       grounded_session (sample_world old_records))) = Some True \<and>
   fst (sidebar (sample_env (\<lambda>n. n < 2)) default_config (Some report_pdf) grounded_session
          (sample_world old_records)) = UploadFailed \<and>
   stored (remote (snd (snd (sidebar (sample_env (\<lambda>n. n < 2)) default_config (Some report_pdf)
                               grounded_session (sample_world old_records))))) = []"
proof -
  let ?E = "sample_env (\<lambda>n. n < 2)"
  let ?w = "sample_world old_records"
  have h: "rag_enabled grounded_session = Some True"
    by (simp add: grounded_session_def)
  have svc: "service ?E = reference_service default_config (\<lambda>n. n < 2) (\<lambda>q ds. ds)"
    by (simp add: sample_env_def)
  have kf: "key_field default_config \<noteq> ''@search.action''"
    by (simp add: default_config_def)
  have c: "clear_azure_search_index ?E default_config ?w =
             (Inr True,
              ?w\<lparr>remote := \<lparr>stored = [], served = 2\<rparr>,
                  sent := [ListKeys ''id'',
                           IndexBatch (delete_payload default_config [JStr ''k1'', JStr ''k2'', JStr ''k3''])]\<rparr>)"
    by (simp add: clear_on_reference_service [OF svc kf])
       (simp add: sample_world_def old_records_def default_config_def)
  have sb: "fst (sidebar ?E default_config (Some report_pdf) grounded_session ?w) = UploadFailed \<and>
            stored (remote (snd (snd (sidebar ?E default_config (Some report_pdf) grounded_session ?w)))) = []"
    by (simp add: sidebar_def c grounded_session_def report_pdf_def)
       (simp add: load_and_split_pdf_def extract_and_split_def index_documents_to_azure_search_def
          http_eq Let_def sample_env_def reference_service_def sample_world_def)
  from rag_enabled_monotonic [OF h] h sb show ?thesis
    by (simp del: session_run.simps)
qed

end
